theory Spec2Isabelle
  imports Main "HOL-Library.List_Lexorder" "HOL-Library.Char_ord" "HOL-Library.Signed_Division"
begin

section \<open>Sessions\<close>

text \<open>
  \<^verbatim>\<open>type Message struct { Role string; Content string }\<close> and
  \<^verbatim>\<open>type Session struct { History []Message }\<close>. The role is a Go string, not an
  enumeration: a session file may hold any text there.
\<close>

record Message =
  Role :: string
  Content :: string

record Session =
  History :: "Message list"

text \<open>
  \<^verbatim>\<open>func (s *Session) addMessage(role, content string)\<close>: append, then keep the last
  20 entries with the slice expression \<^verbatim>\<open>s.History[len(s.History)-20:]\<close>. The method
  mutates its receiver; the model returns the new session.
\<close>

definition addMessage :: "Session \<Rightarrow> string \<Rightarrow> string \<Rightarrow> Session" where
  "addMessage s role content =
     (let h = History s @ [\<lparr>Role = role, Content = content\<rparr>]
      in if length h > 20 then s\<lparr>History := drop (length h - 20) h\<rparr>
         else s\<lparr>History := h\<rparr>)"

text \<open>
  \<^verbatim>\<open>func (s *Session) buildPrompt(newPrompt string) string\<close>. The range loop writes
  into a \<^verbatim>\<open>strings.Builder\<close>; \<open>buildPrompt_loop\<close> is that loop, with the builder's
  content as accumulator. The two bytes \<open>nl2\<close> are the Go literal \<^verbatim>\<open>"\n\n"\<close>.
\<close>

definition nl2 :: string where
  "nl2 = [CHR 0x0A, CHR 0x0A]"

fun buildPrompt_loop :: "Message list \<Rightarrow> string \<Rightarrow> string" where
  "buildPrompt_loop [] ctx = ctx"
| "buildPrompt_loop (msg # rest) ctx =
     buildPrompt_loop rest
       (((ctx @ (if Role msg = ''user'' then ''Human: '' else ''Assistant: ''))
          @ Content msg) @ nl2)"

definition buildPrompt :: "Session \<Rightarrow> string \<Rightarrow> string" where
  "buildPrompt s newPrompt =
     (if length (History s) = 0 then newPrompt
      else (buildPrompt_loop (History s) [] @ ''Human: '') @ newPrompt)"

text \<open>
  The rendering of one turn in the words of the specification: a User-role turn is
  \<^verbatim>\<open>"Human: " + content + "\n\n"\<close>, an Assistant-role turn is
  \<^verbatim>\<open>"Assistant: " + content + "\n\n"\<close>. The specification knows no other role;
  \<open>turn_text\<close> renders nothing for one, and the theorem below is stated for histories
  of the two roles.
\<close>

definition turn_text :: "Message \<Rightarrow> string" where
  "turn_text m =
     (if Role m = ''user'' then ''Human: '' @ Content m @ nl2
      else if Role m = ''assistant'' then ''Assistant: '' @ Content m @ nl2
      else [])"

definition known_role :: "Message \<Rightarrow> bool" where
  "known_role m = (Role m = ''user'' \<or> Role m = ''assistant'')"

section \<open>Time\<close>

text \<open>
  A \<^verbatim>\<open>time.Time\<close> is an instant in nanoseconds since the Unix epoch and a
  \<^verbatim>\<open>time.Duration\<close> is a signed 64-bit count of nanoseconds. \<open>zero_time\<close> is the
  zero \<^verbatim>\<open>time.Time\<close> (1 January of year 1), the value of an unset \<^verbatim>\<open>lastFail\<close>.
  \<open>since now t\<close> is \<^verbatim>\<open>time.Since(t)\<close> read at the instant \<open>now\<close>: the difference,
  saturated to the range of a Duration as \<^verbatim>\<open>Time.Sub\<close> does. \<open>wrap64\<close> is the
  wrap-around of a 64-bit signed multiplication such as
  \<^verbatim>\<open>time.Duration(i+1) * time.Second\<close>.
\<close>

definition millisecond :: int where
  "millisecond = 1000000"

definition second :: int where
  "second = 1000000000"

definition minute :: int where
  "minute = 60 * second"

definition zero_time :: int where
  "zero_time = - 62135596800 * second"

definition maxDuration :: int where
  "maxDuration = 2 ^ 63 - 1"

definition minDuration :: int where
  "minDuration = - (2 ^ 63)"

definition since :: "int \<Rightarrow> int \<Rightarrow> int" where
  "since now t = max minDuration (min maxDuration (now - t))"

definition wrap64 :: "int \<Rightarrow> int" where
  "wrap64 x = (x + 2 ^ 63) mod 2 ^ 64 - 2 ^ 63"

section \<open>Go values\<close>

text \<open>
  A Go call returns or panics. An \<^verbatim>\<open>error\<close> is used by this program through
  \<^verbatim>\<open>err != nil\<close> and \<^verbatim>\<open>err.Error()\<close> only, so it is modelled by its message: a
  nullable error is a \<open>string option\<close>, and a \<^verbatim>\<open>(string, error)\<close> result is a sum
  with the error message on the left. An error whose message is empty is still an
  error (\<open>Some []\<close>, \<open>Inl []\<close>).
\<close>

datatype 'a go = Returns 'a | Panics

text \<open>
  The values \<^verbatim>\<open>json.Unmarshal\<close> stores in an \<^verbatim>\<open>interface{}\<close>: nil, bool, float64,
  string, \<^verbatim>\<open>[]interface{}\<close> and \<^verbatim>\<open>map[string]interface{}\<close>. A map is an association
  list read with \<open>map_of\<close>. A float64 is represented by the text \<^verbatim>\<open>%v\<close> prints for it
  (the shortest decimal that reads back as the same number), since printing is all
  this program does with a number.
\<close>

datatype goval =
    GNil
  | GBool bool
  | GNum string
  | GStr string
  | GSlice "goval list"
  | GMap "(string \<times> goval) list"

text \<open>The index expression \<^verbatim>\<open>m[key]\<close> on a map: nil for a missing key.\<close>

definition index_map :: "(string \<times> goval) list \<Rightarrow> string \<Rightarrow> goval" where
  "index_map m key = (case map_of m key of Some v \<Rightarrow> v | None \<Rightarrow> GNil)"

text \<open>
  The type assertions in their two-valued form \<^verbatim>\<open>v, ok := x.(T)\<close>: \<open>None\<close> is
  \<^verbatim>\<open>ok == false\<close>.
\<close>

fun to_map :: "goval \<Rightarrow> (string \<times> goval) list option" where
  "to_map (GMap m) = Some m"
| "to_map _ = None"

fun to_slice :: "goval \<Rightarrow> goval list option" where
  "to_slice (GSlice xs) = Some xs"
| "to_slice _ = None"

fun to_string :: "goval \<Rightarrow> string option" where
  "to_string (GStr s) = Some s"
| "to_string _ = None"

text \<open>
  \<^verbatim>\<open>fmt.Sprintf("%v", x)\<close> for such a value: a string as it is, nil as
  \<^verbatim>\<open><nil>\<close>, a slice as \<^verbatim>\<open>[a b]\<close>, a map as \<^verbatim>\<open>map[k:v k:v]\<close> with its keys in
  byte-wise order.
\<close>

fun join_sp :: "string list \<Rightarrow> string" where
  "join_sp [] = []"
| "join_sp [x] = x"
| "join_sp (x # y # ys) = x @ '' '' @ join_sp (y # ys)"

fun fmt_v :: "goval \<Rightarrow> string" where
  "fmt_v GNil = ''<nil>''"
| "fmt_v (GBool b) = (if b then ''true'' else ''false'')"
| "fmt_v (GNum r) = r"
| "fmt_v (GStr s) = s"
| "fmt_v (GSlice xs) = ''['' @ join_sp (map fmt_v xs) @ '']''"
| "fmt_v (GMap kvs) =
     ''map['' @ join_sp (map (\<lambda>kv. fst kv @ '':'' @ snd kv)
                 (sort_key fst (map (\<lambda>kv. (fst kv, fmt_v (snd kv))) kvs))) @ '']''"

section \<open>The process and its environment\<close>

text \<open>
  \<^verbatim>\<open>type ProviderConfig struct\<close> and \<^verbatim>\<open>type Response struct\<close>. The flags of
  \<^verbatim>\<open>main\<close> are named after their letters: \<^verbatim>\<open>-m\<close> model, \<^verbatim>\<open>-s\<close> session id,
  \<^verbatim>\<open>-n\<close> max tokens, \<^verbatim>\<open>-t\<close> timeout seconds, \<^verbatim>\<open>-r\<close> retry count, \<^verbatim>\<open>-q\<close> quiet,
  \<^verbatim>\<open>-j\<close> JSON output.
\<close>

record ProviderConfig =
  Endpoint :: string
  Model :: string
  APIKey :: string
  Headers :: "(string \<times> string) list"
  Type :: string

record Response =
  Model :: string
  PID :: int
  Timestamp :: int
  Prompt :: string
  Response :: string
  Error :: string
  Duration :: int

record Flags =
  flag_m :: string
  flag_s :: string
  flag_n :: int
  flag_t :: int
  flag_r :: int
  flag_q :: bool
  flag_j :: bool

text \<open>
  What the remote endpoint does with one request. After \<open>latency\<close> nanoseconds
  \<^verbatim>\<open>client.Do\<close> returns: either the transport has failed, or the response has begun
  and its body is there to be read. Reading the body to its end takes \<open>reading\<close>
  nanoseconds more. A body is given by what \<^verbatim>\<open>json.Unmarshal(body, &result)\<close> makes
  of it, an error text or the decoded \<^verbatim>\<open>map[string]interface{}\<close>: \<open>Body b\<close> holds
  that for the whole body, and \<open>cut_body n\<close> is that for the bytes that have arrived
  when the read is cut off after \<open>n\<close> nanoseconds.
\<close>

datatype reply = TransportError string | Body "string + (string \<times> goval) list"

record exchange =
  latency :: nat
  reply :: reply
  reading :: nat
  cut_body :: "nat \<Rightarrow> string + (string \<times> goval) list"

text \<open>
  A request handed to the HTTP client: the endpoint and the JSON body's three fields
  (\<open>body_messages\<close> lists role and content). The headers set in lines 239-251 are not
  part of the model: nothing the program does afterwards depends on them.
\<close>

record request =
  url :: string
  body_model :: string
  body_messages :: "(string \<times> string) list"
  body_max_tokens :: int

datatype printed = Println string | EncodeJSON Response

text \<open>
  The state the program runs in. The environment: the clock; the process id; \<open>wire k\<close>,
  the fate of the \<open>k\<close>-th request handed to the HTTP client; \<open>url_error\<close>, the error of
  \<^verbatim>\<open>http.NewRequestWithContext\<close> for an endpoint it rejects; \<open>cancel_error\<close>, the
  text of the error \<^verbatim>\<open>client.Do\<close> returns for a request cut off by the context's
  deadline or by the client's timeout;
  the session files, each given by the \<^verbatim>\<open>Session\<close> that \<^verbatim>\<open>json.Unmarshal\<close> reads from
  it. What the program produces: the requests \<open>sent\<close>, \<open>stdout\<close>, the messages passed
  to \<^verbatim>\<open>logError\<close>. And the variable \<^verbatim>\<open>resp\<close> of \<^verbatim>\<open>main\<close>, which the closure passed to
  the circuit breaker assigns to.
\<close>

record state =
  clock :: int
  pid :: int
  wire :: "nat \<Rightarrow> exchange"
  url_error :: "string \<Rightarrow> string option"
  cancel_error :: string
  files :: "string \<Rightarrow> Session option"
  sent :: "request list"
  stdout :: "printed list"
  stderr :: "string list"
  resp :: Response

definition time_Sleep :: "int \<Rightarrow> state \<Rightarrow> state" where
  "time_Sleep d s = s\<lparr>clock := clock s + max 0 d\<rparr>"

definition logError :: "string \<Rightarrow> state \<Rightarrow> state" where
  "logError msg s = s\<lparr>stderr := stderr s @ [msg]\<rparr>"

text \<open>
  \<^verbatim>\<open>loadSession\<close> and \<^verbatim>\<open>Session.save\<close>. A file that cannot be read gives the empty
  session; \<^verbatim>\<open>save\<close> ignores the errors of the file system, and the model's file
  system accepts every write.
\<close>

definition session_path :: "string \<Rightarrow> string \<Rightarrow> string" where
  "session_path model sessionID = ''.sessions/'' @ model @ ''-'' @ sessionID @ ''.json''"

definition loadSession :: "string \<Rightarrow> string \<Rightarrow> state \<Rightarrow> Session" where
  "loadSession sessionID model s =
     (if sessionID = [] then \<lparr>History = []\<rparr>
      else case files s (session_path model sessionID) of
             None \<Rightarrow> \<lparr>History = []\<rparr>
           | Some ses \<Rightarrow> ses)"

definition save :: "Session \<Rightarrow> string \<Rightarrow> string \<Rightarrow> state \<Rightarrow> state" where
  "save ses sessionID model s =
     (if sessionID = [] then s
      else s\<lparr>files := (files s)(session_path model sessionID := Some ses)\<rparr>)"

section \<open>The provider adapter\<close>

text \<open>
  Lines 267-290 of \<^verbatim>\<open>callAPI\<close>: the response is read out of the decoded body. The
  assertions \<^verbatim>\<open>content[0].(map[string]interface{})\<close> and
  \<^verbatim>\<open>choices[0].(map[string]interface{})\<close> are of the one-valued form, which panics
  when the element is not a map. Left is the error's message, right the reply's text.
\<close>

definition extractResponse :: "string \<Rightarrow> (string \<times> goval) list \<Rightarrow> (string + string) go" where
  "extractResponse ty result =
     (if ty = ''anthropic'' then
        (case to_map (index_map result ''error'') of
           Some errMsg \<Rightarrow> Returns (Inl (fmt_v (index_map errMsg ''message'')))
         | None \<Rightarrow>
            (case to_slice (index_map result ''content'') of
               None \<Rightarrow> Returns (Inl ''unexpected response format'')
             | Some content \<Rightarrow>
                 if length content > 0 then
                   (case to_map (content ! 0) of
                      None \<Rightarrow> Panics
                    | Some first \<Rightarrow>
                        (case to_string (index_map first ''text'') of
                           Some txt \<Rightarrow> Returns (Inr txt)
                         | None \<Rightarrow> Returns (Inl ''unexpected response format'')))
                 else Returns (Inl ''unexpected response format'')))
      else
        (case to_map (index_map result ''error'') of
           Some errMsg \<Rightarrow> Returns (Inl (fmt_v (index_map errMsg ''message'')))
         | None \<Rightarrow>
            (case to_slice (index_map result ''choices'') of
               None \<Rightarrow> Returns (Inl ''unexpected response format'')
             | Some choices \<Rightarrow>
                 if length choices > 0 then
                   (case to_map (choices ! 0) of
                      None \<Rightarrow> Panics
                    | Some first \<Rightarrow>
                        (case to_map (index_map first ''message'') of
                           None \<Rightarrow> Returns (Inl ''unexpected response format'')
                         | Some msg \<Rightarrow>
                             (case to_string (index_map msg ''content'') of
                                Some content \<Rightarrow> Returns (Inr content)
                              | None \<Rightarrow> Returns (Inl ''unexpected response format''))))
                 else Returns (Inl ''unexpected response format''))))"

text \<open>
  Lines 262-290 of \<^verbatim>\<open>callAPI\<close> on what \<^verbatim>\<open>json.Unmarshal\<close> made of the bytes
  read: its error becomes a parse error, a decoded object is read by
  \<open>extractResponse\<close>.
\<close>

definition parseBody :: "string \<Rightarrow> string + (string \<times> goval) list \<Rightarrow> (string + string) go" where
  "parseBody ty b =
     (case b of
        Inl e \<Rightarrow> Returns (Inl (''parse error: '' @ e))
      | Inr result \<Rightarrow> extractResponse ty result)"

text \<open>
  \<^verbatim>\<open>func callAPI(ctx, cfg, prompt, maxTokens) (string, error)\<close>. The context is
  given by its deadline. The switch on \<^verbatim>\<open>cfg.Type\<close> (lines 210-231) builds the
  request body, the same for both known types, or returns the error of an unknown
  type. \<open>callAPI_rest\<close> is what follows the switch (lines 233-290):
  \<^verbatim>\<open>http.NewRequestWithContext\<close> may reject the endpoint; then \<^verbatim>\<open>client.Do\<close> hands
  the request to the HTTP client, whose \<^verbatim>\<open>Timeout\<close> is 30 seconds and covers the
  reading of the body. \<open>limit\<close> is the earlier of the context's deadline and the
  client's timeout.
  \<^item> When \<^verbatim>\<open>client.Do\<close> has not returned before the limit, the request is cut off
    there (at once, when the limit has passed) and \<^verbatim>\<open>client.Do\<close> returns the error.
  \<^item> When it returns in time with a transport error, that error is returned.
  \<^item> When it returns in time with a response, line 260 reads the body with
    \<^verbatim>\<open>body, _ := io.ReadAll(resp.Body)\<close>. A read that ends before the limit gives the
    whole body. A read that is cut off at the limit returns the bytes read so far and an
    error, which line 260 drops: the call goes on with those bytes, so it may still
    return a text, or a parse error.
\<close>

definition reqBody :: "ProviderConfig \<Rightarrow> string \<Rightarrow> int \<Rightarrow> request" where
  "reqBody cfg prompt maxTokens =
     \<lparr>url = Endpoint cfg, body_model = ProviderConfig.Model cfg,
      body_messages = [(''user'', prompt)], body_max_tokens = maxTokens\<rparr>"

definition callAPI_rest :: "int \<Rightarrow> ProviderConfig \<Rightarrow> request \<Rightarrow> state \<Rightarrow> (string + string) go \<times> state" where
  "callAPI_rest deadline cfg req s =
     (case url_error s (Endpoint cfg) of
        Some e \<Rightarrow> (Returns (Inl e), s)
      | None \<Rightarrow>
          (let x = wire s (length (sent s));
               s1 = s\<lparr>sent := sent s @ [req]\<rparr>;
               limit = min deadline (clock s + 30 * second);
               t1 = clock s + int (latency x)
           in if t1 < limit then
                (case reply x of
                   TransportError e \<Rightarrow> (Returns (Inl e), s1\<lparr>clock := t1\<rparr>)
                 | Body whole \<Rightarrow>
                     if t1 + int (reading x) < limit then
                       (parseBody (Type cfg) whole, s1\<lparr>clock := t1 + int (reading x)\<rparr>)
                     else
                       (parseBody (Type cfg) (cut_body x (nat (limit - t1))),
                        s1\<lparr>clock := limit\<rparr>))
              else (Returns (Inl (cancel_error s)), s1\<lparr>clock := max (clock s) limit\<rparr>)))"

definition callAPI :: "int \<Rightarrow> ProviderConfig \<Rightarrow> string \<Rightarrow> int \<Rightarrow> state \<Rightarrow> (string + string) go \<times> state" where
  "callAPI deadline cfg prompt maxTokens s =
     (if Type cfg = ''anthropic'' then
        callAPI_rest deadline cfg (reqBody cfg prompt maxTokens) s
      else if Type cfg = ''openai'' \<or> Type cfg = [] then
        callAPI_rest deadline cfg (reqBody cfg prompt maxTokens) s
      else (Returns (Inl (''unknown provider type: '' @ Type cfg)), s))"

section \<open>The circuit breaker\<close>

text \<open>
  \<^verbatim>\<open>type CircuitBreaker struct\<close> without its mutex: the program calls \<^verbatim>\<open>Do\<close> from
  one goroutine. \<^verbatim>\<open>NewCircuitBreaker\<close> leaves \<^verbatim>\<open>failures\<close> and \<^verbatim>\<open>lastFail\<close> at
  their zero values.
\<close>

record CircuitBreaker =
  failures :: int
  lastFail :: int
  threshold :: int
  timeout :: int

definition NewCircuitBreaker :: CircuitBreaker where
  "NewCircuitBreaker = \<lparr>failures = 0, lastFail = zero_time, threshold = 3, timeout = 5 * minute\<rparr>"

text \<open>
  \<^verbatim>\<open>func (cb *CircuitBreaker) Do(fn func() error) error\<close>. The breaker is passed
  in and returned; \<open>fn\<close> acts on the state. When \<open>fn\<close> panics the deferred unlock runs
  and the panic goes on to the caller, the counters as they were after the reset.
  \<^verbatim>\<open>cb.failures++\<close> runs only below the threshold, so it cannot overflow.
\<close>

definition Do :: "CircuitBreaker \<Rightarrow> (state \<Rightarrow> string option go \<times> state) \<Rightarrow> state
    \<Rightarrow> string option go \<times> CircuitBreaker \<times> state" where
  "Do cb fn s =
     (let cb1 = (if since (clock s) (lastFail cb) > timeout cb then cb\<lparr>failures := 0\<rparr> else cb)
      in if failures cb1 \<ge> threshold cb1 then (Returns (Some ''circuit open''), cb1, s)
         else (case fn s of
                 (Panics, s') \<Rightarrow> (Panics, cb1, s')
               | (Returns (Some err), s') \<Rightarrow>
                   (Returns (Some err), cb1\<lparr>failures := failures cb1 + 1, lastFail := clock s'\<rparr>, s')
               | (Returns None, s') \<Rightarrow> (Returns None, cb1\<lparr>failures := 0\<rparr>, s')))"

section \<open>The retry loop and main\<close>

text \<open>
  The closure that \<^verbatim>\<open>main\<close> passes to \<^verbatim>\<open>breaker.Do\<close> (lines 422-429): it calls
  \<^verbatim>\<open>callAPI\<close> and, on success, assigns \<^verbatim>\<open>resp.Response\<close>.
\<close>

definition attempt :: "int \<Rightarrow> ProviderConfig \<Rightarrow> string \<Rightarrow> int \<Rightarrow> state \<Rightarrow> string option go \<times> state" where
  "attempt deadline cfg contextPrompt maxTokens s =
     (case callAPI deadline cfg contextPrompt maxTokens s of
        (Panics, s') \<Rightarrow> (Panics, s')
      | (Returns (Inl err), s') \<Rightarrow> (Returns (Some err), s')
      | (Returns (Inr result), s') \<Rightarrow>
          (Returns None, s'\<lparr>resp := (resp s')\<lparr>Response := result\<rparr>\<rparr>))"

text \<open>
  The loop of lines 420-439, \<^verbatim>\<open>for i := 0; i < *retries; i++\<close>, over the closure
  \<open>fn\<close>: its variables are \<open>i\<close>, the breaker, \<^verbatim>\<open>lastErr\<close> and the state. It returns
  \<^verbatim>\<open>lastErr\<close> as the loop leaves it, or the panic of an attempt.
\<close>

function retry_loop :: "(state \<Rightarrow> string option go \<times> state) \<Rightarrow> int \<Rightarrow> int \<Rightarrow> CircuitBreaker
    \<Rightarrow> string option \<Rightarrow> state \<Rightarrow> string option go \<times> CircuitBreaker \<times> state" where
  "retry_loop fn retries i cb lastErr s =
     (if i < retries then
        (case Do cb fn s of
           (Panics, cb', s') \<Rightarrow> (Panics, cb', s')
         | (Returns None, cb', s') \<Rightarrow> (Returns lastErr, cb', s')
         | (Returns (Some err), cb', s') \<Rightarrow>
             retry_loop fn retries (i + 1) cb' (Some err)
               (if i < retries - 1 then time_Sleep (wrap64 ((i + 1) * second)) s' else s'))
      else (Returns lastErr, cb, s))"
  by pat_completeness auto
termination
  by (relation "measure (\<lambda>(fn, retries, i, cb, lastErr, s). nat (retries - i))") auto

text \<open>
  \<^verbatim>\<open>func main()\<close> from line 400 on: the flags are parsed, the configuration is
  loaded and the prompt is read (it is not empty). The result is the exit status (2
  for a panic), the session as \<^verbatim>\<open>main\<close> leaves it in memory, and the final state.
\<close>

record run =
  exit_code :: int
  session :: Session
  final :: state

definition main :: "Flags \<Rightarrow> ProviderConfig \<Rightarrow> string \<Rightarrow> state \<Rightarrow> run" where
  "main fl cfg prompt s0 =
     (let session0 = loadSession (flag_s fl) (flag_m fl) s0;
          contextPrompt = buildPrompt session0 prompt;
          breaker = NewCircuitBreaker;
          s1 = s0\<lparr>resp := \<lparr>Model = flag_m fl, PID = pid s0, Timestamp = clock s0 div second,
                            Prompt = prompt, Response = [], Error = [], Duration = 0\<rparr>\<rparr>;
          start = clock s1;
          deadline = start + wrap64 (flag_t fl * second)
      in case retry_loop (attempt deadline cfg contextPrompt (flag_n fl)) (flag_r fl) 0 breaker None s1 of
           (Panics, cb, s2) \<Rightarrow> \<lparr>exit_code = 2, session = session0, final = s2\<rparr>
         | (Returns lastErr, cb, s2) \<Rightarrow>
            (let s3 = (case lastErr of
                         Some err \<Rightarrow> s2\<lparr>resp := (resp s2)\<lparr>Error := err\<rparr>\<rparr>
                       | None \<Rightarrow> s2);
                 s4 = s3\<lparr>resp := (resp s3)\<lparr>Duration := since (clock s3) start sdiv millisecond\<rparr>\<rparr>;
                 saved = (if Error (resp s4) = [] \<and> flag_s fl \<noteq> [] then
                            (let ses = addMessage (addMessage session0 ''user'' prompt)
                                         ''assistant'' (Response (resp s4))
                             in (ses, save ses (flag_s fl) (flag_m fl) s4))
                          else (session0, s4));
                 session1 = fst saved;
                 s5 = snd saved
             in if flag_j fl then
                  \<lparr>exit_code = (if Error (resp s5) \<noteq> [] then 1 else 0), session = session1,
                   final = s5\<lparr>stdout := stdout s5 @ [EncodeJSON (resp s5)]\<rparr>\<rparr>
                else if Error (resp s5) \<noteq> [] then
                  \<lparr>exit_code = 1, session = session1,
                   final = (if \<not> flag_q fl then logError (Error (resp s5)) s5 else s5)\<rparr>
                else
                  \<lparr>exit_code = 0, session = session1,
                   final = s5\<lparr>stdout := stdout s5 @ [Println (Response (resp s5))]\<rparr>\<rparr>))"



section \<open>Concrete inputs\<close>

text \<open>
  The inputs of the examples below: a configuration as the README gives it and one of
  type \<^verbatim>\<open>custom\<close>; the flags with their defaults but for the session id, the
  timeout, the retry count and \<^verbatim>\<open>-j\<close>; a process started at second 1700000000 with
  no session file; an operation that fails after one second. The endpoints: one whose
  first exchange fails after half a second and whose later ones answer
  \<^verbatim>\<open>{"content":[{"text":"hello"}]}\<close> within half a second; one that answers every
  request with \<^verbatim>\<open>{"error":{"message":""}}\<close>; one that answers every request with
  \<^verbatim>\<open>{"content":["x"]}\<close>; one whose every exchange fails after half a second; and
  one that sends \<^verbatim>\<open>{"content":[{"text":"hello"}]}\<close> within half a second and then
  keeps the stream open for ten seconds. A read cut short on the first three has the
  error of \<^verbatim>\<open>json.Unmarshal\<close> for a truncated text.
\<close>

definition anthropic_cfg :: ProviderConfig where
  "anthropic_cfg = \<lparr>Endpoint = ''https://api.anthropic.com/v1/messages'',
     ProviderConfig.Model = ''claude-3-5-sonnet-20241022'', APIKey = ''key'', Headers = [],
     Type = ''anthropic''\<rparr>"

definition custom_cfg :: ProviderConfig where
  "custom_cfg = anthropic_cfg\<lparr>Type := ''custom''\<rparr>"

definition flags :: "string \<Rightarrow> int \<Rightarrow> int \<Rightarrow> bool \<Rightarrow> Flags" where
  "flags sessionID timeout_s retries jsonOut =
     \<lparr>flag_m = ''claude4'', flag_s = sessionID, flag_n = 1024, flag_t = timeout_s,
      flag_r = retries, flag_q = False, flag_j = jsonOut\<rparr>"

definition fresh :: "(nat \<Rightarrow> exchange) \<Rightarrow> state" where
  "fresh w = \<lparr>clock = 1700000000 * second, pid = 4711, wire = w, url_error = (\<lambda>u. None),
     cancel_error = ''context deadline exceeded'', files = (\<lambda>p. None), sent = [],
     stdout = [], stderr = [],
     resp = \<lparr>Model = [], PID = 0, Timestamp = 0, Prompt = [], Response = [], Error = [],
             Duration = 0\<rparr>\<rparr>"

definition hello_body :: "(string \<times> goval) list" where
  "hello_body = [(''content'', GSlice [GMap [(''text'', GStr ''hello'')]])]"

definition answers :: "(string \<times> goval) list \<Rightarrow> exchange" where
  "answers b = \<lparr>latency = 400000000, reply = Body (Inr b), reading = 100000000,
                 cut_body = (\<lambda>n. Inl ''unexpected end of JSON input'')\<rparr>"

definition boom :: exchange where
  "boom = \<lparr>latency = 500000000, reply = TransportError ''boom'', reading = 0,
            cut_body = (\<lambda>n. Inl ''unexpected end of JSON input'')\<rparr>"

definition boom_then_hello :: "nat \<Rightarrow> exchange" where
  "boom_then_hello k = (if k = 0 then boom else answers hello_body)"


definition empty_error :: "nat \<Rightarrow> exchange" where
  "empty_error k = answers [(''error'', GMap [(''message'', GStr [])])]"

definition string_content :: "nat \<Rightarrow> exchange" where
  "string_content k = answers [(''content'', GSlice [GStr ''x''])]"

definition hello_kept_open :: "nat \<Rightarrow> exchange" where
  "hello_kept_open k = \<lparr>latency = 400000000, reply = Body (Inr hello_body),
                          reading = 10000000000, cut_body = (\<lambda>n. Inr hello_body)\<rparr>"

definition down :: "state \<Rightarrow> string option go \<times> state" where
  "down s = (Returns (Some ''down''), s\<lparr>clock := clock s + second\<rparr>)"

section \<open>Properties of the session functions\<close>

lemma length_addMessage:
  "length (History (addMessage s r c)) = min (Suc (length (History s))) 20"
  by (simp add: addMessage_def Let_def)

lemma buildPrompt_loop_append:
  "buildPrompt_loop ms ctx = ctx @ buildPrompt_loop ms []"
proof (induction ms arbitrary: ctx)
  case Nil
  show ?case by simp
next
  case (Cons m ms)
  have "buildPrompt_loop (m # ms) ctx =
        (ctx @ (if Role m = ''user'' then ''Human: '' else ''Assistant: '') @ Content m @ nl2)
          @ buildPrompt_loop ms []"
    using Cons.IH [of "((ctx @ (if Role m = ''user'' then ''Human: '' else ''Assistant: ''))
          @ Content m) @ nl2"] by simp
  moreover have "buildPrompt_loop (m # ms) [] =
        ((if Role m = ''user'' then ''Human: '' else ''Assistant: '') @ Content m @ nl2)
          @ buildPrompt_loop ms []"
    using Cons.IH [of "(([] @ (if Role m = ''user'' then ''Human: '' else ''Assistant: ''))
          @ Content m) @ nl2"] by simp
  ultimately show ?case by simp
qed

lemma buildPrompt_loop_concat:
  "buildPrompt_loop ms [] =
     concat (map (\<lambda>m. (if Role m = ''user'' then ''Human: '' else ''Assistant: '')
                          @ Content m @ nl2) ms)"
proof (induction ms)
  case Nil
  show ?case by simp
next
  case (Cons m ms)
  have "buildPrompt_loop (m # ms) [] =
        ((if Role m = ''user'' then ''Human: '' else ''Assistant: '') @ Content m @ nl2)
          @ buildPrompt_loop ms []"
    using buildPrompt_loop_append [of ms
        "(([] @ (if Role m = ''user'' then ''Human: '' else ''Assistant: '')) @ Content m) @ nl2"]
    by simp
  then show ?case using Cons.IH by simp
qed

lemma buildPrompt_loop_turns:
  "list_all known_role ms \<Longrightarrow> buildPrompt_loop ms [] = concat (map turn_text ms)"
proof -
  assume "list_all known_role ms"
  then have "concat (map (\<lambda>m. (if Role m = ''user'' then ''Human: '' else ''Assistant: '')
                          @ Content m @ nl2) ms) = concat (map turn_text ms)"
    by (induction ms) (auto simp: turn_text_def known_role_def)
  then show ?thesis by (simp only: buildPrompt_loop_concat)
qed

text \<open>
  Claim C5. \<open>buildPrompt\<close> returns the new prompt unchanged for an empty history; for
  a non-empty history of User and Assistant turns it returns the turns' renderings
  (\<open>Human: \<close> or \<open>Assistant: \<close>, the content, two newlines) concatenated in insertion
  order, then \<open>Human: \<close> and the new prompt, and nothing after it. For a non-empty
  history of any roles the rendering is the same with every role other than \<open>user\<close>
  under the prefix \<open>Assistant: \<close>. As a HOL function \<open>buildPrompt\<close> has no effect
  and its result depends on the session and the prompt only.
\<close>

theorem buildPrompt_renders_history:
  "(History s = [] \<longrightarrow> buildPrompt s p = p) \<and>
   (History s \<noteq> [] \<and> list_all known_role (History s) \<longrightarrow>
      buildPrompt s p = concat (map turn_text (History s)) @ ''Human: '' @ p) \<and>
   (History s \<noteq> [] \<longrightarrow>
      buildPrompt s p =
        concat (map (\<lambda>m. (if Role m = ''user'' then ''Human: '' else ''Assistant: '')
                             @ Content m @ nl2) (History s)) @ ''Human: '' @ p)"
proof (intro conjI impI)
  assume "History s = []"
  then show "buildPrompt s p = p" by (simp add: buildPrompt_def)
next
  assume "History s \<noteq> [] \<and> list_all known_role (History s)"
  then show "buildPrompt s p = concat (map turn_text (History s)) @ ''Human: '' @ p"
    by (simp add: buildPrompt_def buildPrompt_loop_turns)
next
  assume "History s \<noteq> []"
  then show "buildPrompt s p =
        concat (map (\<lambda>m. (if Role m = ''user'' then ''Human: '' else ''Assistant: '')
                             @ Content m @ nl2) (History s)) @ ''Human: '' @ p"
    by (simp add: buildPrompt_def buildPrompt_loop_concat)
qed

theorem buildPrompt_renders_history_witness:
  "buildPrompt \<lparr>History = []\<rparr> ''how are you'' = ''how are you'' \<and>
   buildPrompt \<lparr>History = [\<lparr>Role = ''user'', Content = ''hi''\<rparr>,
                            \<lparr>Role = ''assistant'', Content = ''hello''\<rparr>]\<rparr> ''how are you''
     = ''Human: hi'' @ nl2 @ ''Assistant: hello'' @ nl2 @ ''Human: how are you''"
  using buildPrompt_renders_history [of "\<lparr>History = []\<rparr>" "''how are you''"]
    buildPrompt_renders_history [of "\<lparr>History = [\<lparr>Role = ''user'', Content = ''hi''\<rparr>,
                            \<lparr>Role = ''assistant'', Content = ''hello''\<rparr>]\<rparr>" "''how are you''"]
  by (simp add: known_role_def turn_text_def)

text \<open>
  Claim C6. After \<open>addMessage\<close> the history holds at most 20 entries; when it held
  exactly 20 before, it holds exactly 20 after: the oldest entry is gone, the others
  keep their order and the new turn is last.
\<close>

theorem addMessage_keeps_last_20:
  "length (History (addMessage s r c)) \<le> 20 \<and>
   (length (History s) = 20 \<longrightarrow>
      length (History (addMessage s r c)) = 20 \<and>
      History (addMessage s r c) = tl (History s) @ [\<lparr>Role = r, Content = c\<rparr>])"
proof -
  have "length (History (addMessage s r c)) \<le> 20"
    by (simp add: length_addMessage)
  moreover have "History (addMessage s r c) = tl (History s) @ [\<lparr>Role = r, Content = c\<rparr>]"
    if "length (History s) = 20"
    using that by (cases "History s") (simp_all add: addMessage_def Let_def)
  ultimately show ?thesis by (simp add: length_addMessage)
qed

theorem addMessage_keeps_last_20_witness:
  "length (History (addMessage
      \<lparr>History = \<lparr>Role = ''user'', Content = ''first''\<rparr> # replicate 19 \<lparr>Role = ''assistant'', Content = ''x''\<rparr>\<rparr>
      ''user'' ''new'')) = 20 \<and>
   History (addMessage
      \<lparr>History = \<lparr>Role = ''user'', Content = ''first''\<rparr> # replicate 19 \<lparr>Role = ''assistant'', Content = ''x''\<rparr>\<rparr>
      ''user'' ''new'')
     = replicate 19 \<lparr>Role = ''assistant'', Content = ''x''\<rparr> @ [\<lparr>Role = ''user'', Content = ''new''\<rparr>]"
  using addMessage_keeps_last_20 [of
      "\<lparr>History = \<lparr>Role = ''user'', Content = ''first''\<rparr> # replicate 19 \<lparr>Role = ''assistant'', Content = ''x''\<rparr>\<rparr>"
      "''user''" "''new''"]
  by simp

section \<open>Properties of the provider adapter\<close>

declare retry_loop.simps [simp del]

lemmas time_defs = since_def zero_time_def second_def minute_def millisecond_def
  maxDuration_def minDuration_def wrap64_def

lemmas run_defs = main_def loadSession_def buildPrompt_def NewCircuitBreaker_def attempt_def
  callAPI_def callAPI_rest_def parseBody_def reqBody_def Do_def time_Sleep_def
  extractResponse_def index_map_def logError_def save_def session_path_def addMessage_def

lemmas input_defs = anthropic_cfg_def flags_def fresh_def hello_body_def answers_def boom_def
  boom_then_hello_def

text \<open>
  Claim C8. For a configuration whose type is neither \<^verbatim>\<open>anthropic\<close> nor
  \<^verbatim>\<open>openai\<close> nor empty, \<open>callAPI\<close> returns the error of an unknown provider type
  and leaves the state as it found it: no request is built or handed to the HTTP
  client, so the list of requests sent is unchanged.
\<close>

theorem callAPI_unknown_provider:
  "Type cfg \<noteq> ''anthropic'' \<and> Type cfg \<noteq> ''openai'' \<and> Type cfg \<noteq> [] \<longrightarrow>
     callAPI deadline cfg prompt maxTokens s
       = (Returns (Inl (''unknown provider type: '' @ Type cfg)), s) \<and>
     sent (snd (callAPI deadline cfg prompt maxTokens s)) = sent s"
  by (simp add: callAPI_def)

theorem callAPI_unknown_provider_witness:
  "callAPI (1700000030 * second) custom_cfg ''hi'' 1024 (fresh boom_then_hello)
     = (Returns (Inl ''unknown provider type: custom''), fresh boom_then_hello) \<and>
   sent (snd (callAPI (1700000030 * second) custom_cfg ''hi'' 1024 (fresh boom_then_hello))) = []"
  using callAPI_unknown_provider [of custom_cfg "1700000030 * second" "''hi''" 1024 "fresh boom_then_hello"]
  by (simp add: custom_cfg_def anthropic_cfg_def fresh_def)

text \<open>
  An exchange whose body is read to its end in time: \<open>callAPI\<close> sends one request
  and returns what lines 262-290 make of the whole body. An exchange whose response
  begins in time but whose body is still being read at the deadline: \<open>callAPI\<close>
  returns at the deadline what lines 262-290 make of the bytes read.
\<close>

lemma callAPI_reads_body:
  "Type cfg = ''anthropic'' \<or> Type cfg = ''openai'' \<or> Type cfg = [] \<Longrightarrow>
   url_error s (Endpoint cfg) = None \<Longrightarrow>
   wire s (length (sent s)) = \<lparr>latency = l, reply = Body b, reading = r, cut_body = c\<rparr> \<Longrightarrow>
   clock s + int l + int r < deadline \<Longrightarrow> l + r < 30000000000 \<Longrightarrow>
   callAPI deadline cfg prompt n s
     = (parseBody (Type cfg) b,
        s\<lparr>sent := sent s @ [reqBody cfg prompt n], clock := clock s + int l + int r\<rparr>)"
  by (auto simp: callAPI_def callAPI_rest_def Let_def second_def)

lemma callAPI_reads_cut_body:
  "Type cfg = ''anthropic'' \<or> Type cfg = ''openai'' \<or> Type cfg = [] \<Longrightarrow>
   url_error s (Endpoint cfg) = None \<Longrightarrow>
   wire s (length (sent s)) = \<lparr>latency = l, reply = Body b, reading = r, cut_body = c\<rparr> \<Longrightarrow>
   clock s + int l < deadline \<Longrightarrow> deadline \<le> clock s + int l + int r \<Longrightarrow>
   deadline \<le> clock s + 30000000000 \<Longrightarrow>
   callAPI deadline cfg prompt n s
     = (parseBody (Type cfg) (c (nat (deadline - (clock s + int l)))),
        s\<lparr>sent := sent s @ [reqBody cfg prompt n], clock := deadline\<rparr>)"
  by (auto simp: callAPI_def callAPI_rest_def Let_def second_def min_def)

text \<open>
  The round trips. The bodies are given as \<^verbatim>\<open>json.Unmarshal\<close> decodes them. For the
  type \<^verbatim>\<open>anthropic\<close>, \<^verbatim>\<open>{"content":[{"text":"hello"}]}\<close> gives the text \<open>hello\<close>
  and \<^verbatim>\<open>{"error":{"message":"bad key"}}\<close> gives the error \<open>bad key\<close>; for the type
  \<^verbatim>\<open>openai\<close> and for the empty type,
  \<^verbatim>\<open>{"choices":[{"message":{"content":"hi"}}]}\<close> gives the text \<open>hi\<close>; a decoded
  object with no \<^verbatim>\<open>error\<close> key and no \<^verbatim>\<open>content\<close> key (no \<^verbatim>\<open>choices\<close> key for the
  other types) gives the error \<open>unexpected response format\<close>.
\<close>

theorem parse_round_trips:
  "extractResponse ''anthropic'' [(''content'', GSlice [GMap [(''text'', GStr ''hello'')]])]
     = Returns (Inr ''hello'') \<and>
   extractResponse ''anthropic'' [(''error'', GMap [(''message'', GStr ''bad key'')])]
     = Returns (Inl ''bad key'') \<and>
   extractResponse ''openai''
       [(''choices'', GSlice [GMap [(''message'', GMap [(''content'', GStr ''hi'')])]])]
     = Returns (Inr ''hi'') \<and>
   extractResponse []
       [(''choices'', GSlice [GMap [(''message'', GMap [(''content'', GStr ''hi'')])]])]
     = Returns (Inr ''hi'') \<and>
   (map_of result ''error'' = None \<and> map_of result ''content'' = None \<longrightarrow>
      extractResponse ''anthropic'' result = Returns (Inl ''unexpected response format'')) \<and>
   (ty \<noteq> ''anthropic'' \<and> map_of result ''error'' = None \<and> map_of result ''choices'' = None \<longrightarrow>
      extractResponse ty result = Returns (Inl ''unexpected response format''))"
  by (simp add: extractResponse_def index_map_def)

theorem parse_round_trips_witness:
  "extractResponse ''anthropic'' [(''id'', GStr ''msg_1''), (''usage'', GMap [])]
     = Returns (Inl ''unexpected response format'') \<and>
   extractResponse ''openai'' [(''id'', GStr ''msg_1''), (''usage'', GMap [])]
     = Returns (Inl ''unexpected response format'')"
  using parse_round_trips [of "[(''id'', GStr ''msg_1''), (''usage'', GMap [])]" "''openai''"]
  by simp

text \<open>
  The shapes for which the code does reach its last line: no \<^verbatim>\<open>error\<close> object, and a
  \<^verbatim>\<open>content\<close> (\<^verbatim>\<open>choices\<close>) that is missing, not an array or empty, or whose first
  element is an object without the text.
\<close>

lemma extractResponse_format_error:
  "to_map (index_map result ''error'') = None \<Longrightarrow>
   to_slice (index_map result ''content'') = None \<or>
   to_slice (index_map result ''content'') = Some [] \<or>
   (\<exists>m rest. to_slice (index_map result ''content'') = Some (GMap m # rest) \<and>
              to_string (index_map m ''text'') = None) \<Longrightarrow>
   extractResponse ''anthropic'' result = Returns (Inl ''unexpected response format'')"
  by (auto simp: extractResponse_def)

text \<open>
  Claim C9, on a body that has neither an error nor the text of a reply, but whose
  \<^verbatim>\<open>content\<close> (\<^verbatim>\<open>choices\<close>) is an array with a first element that is not an object:
  \<^verbatim>\<open>{"content":["x"]}\<close> for the type \<^verbatim>\<open>anthropic\<close>, \<^verbatim>\<open>{"choices":[null]}\<close> for the
  type \<^verbatim>\<open>openai\<close>. The assertions \<^verbatim>\<open>content[0].(map[string]interface{})\<close> of line
  273 and \<^verbatim>\<open>choices[0].(map[string]interface{})\<close> of line 282 are unchecked, so the
  call panics instead of returning the error \<open>unexpected response format\<close>: the run
  against an endpoint that answers \<^verbatim>\<open>{"content":["x"]}\<close> sends one request, prints
  nothing, logs nothing and ends with the exit status 2.
\<close>

theorem unexpected_shape_panics:
  "extractResponse ''anthropic'' [(''content'', GSlice [GStr ''x''])] = Panics \<and>
   extractResponse ''openai'' [(''choices'', GSlice [GNil])] = Panics \<and>
   exit_code (main (flags [] 30 3 False) anthropic_cfg ''hi'' (fresh string_content)) = 2 \<and>
   length (sent (final (main (flags [] 30 3 False) anthropic_cfg ''hi'' (fresh string_content)))) = 1 \<and>
   stdout (final (main (flags [] 30 3 False) anthropic_cfg ''hi'' (fresh string_content))) = [] \<and>
   stderr (final (main (flags [] 30 3 False) anthropic_cfg ''hi'' (fresh string_content))) = []"
  by (simp add: run_defs input_defs string_content_def time_defs retry_loop.simps Let_def)

section \<open>Properties of the circuit breaker\<close>

lemma Do_open:
  "threshold cb \<le> failures cb \<Longrightarrow> since (clock s) (lastFail cb) \<le> timeout cb \<Longrightarrow>
   Do cb fn s = (Returns (Some ''circuit open''), cb, s)"
  by (simp add: Do_def)

lemma Do_after_cooldown:
  "timeout cb < since (clock s) (lastFail cb) \<Longrightarrow> 0 < threshold cb \<Longrightarrow>
   Do cb fn s = Do (cb\<lparr>failures := 0\<rparr>) fn s \<and>
   fst (Do cb fn s) = fst (fn s) \<and> snd (snd (Do cb fn s)) = snd (fn s)"
  by (cases "fn s") (auto simp: Do_def Let_def split: go.splits option.splits)

lemma Do_success_resets:
  "fst (Do cb fn s) = Returns None \<Longrightarrow> failures (fst (snd (Do cb fn s))) = 0"
  by (auto simp: Do_def Let_def split: prod.splits go.splits option.splits if_splits)

lemma Do_failure_counts:
  "fn s = (Returns (Some e), s') \<Longrightarrow> since (clock s) (lastFail cb) \<le> timeout cb \<Longrightarrow>
   failures cb < threshold cb \<Longrightarrow>
   Do cb fn s = (Returns (Some e), cb\<lparr>failures := failures cb + 1, lastFail := clock s'\<rparr>, s')"
  by (simp add: Do_def)

lemma Do_first_failure:
  "fn s = (Returns (Some e), s') \<Longrightarrow>
   Do NewCircuitBreaker fn s
     = (Returns (Some e), NewCircuitBreaker\<lparr>failures := 1, lastFail := clock s'\<rparr>, s')"
  by (simp add: Do_def NewCircuitBreaker_def)

text \<open>
  Claim C4. A new breaker has no failures, the threshold 3 and a cooldown of 300
  seconds. Three failing attempts in a row, each begun within the cooldown of the
  failure before it, count to 3, and a fourth attempt begun within the cooldown is
  answered \<open>circuit open\<close> with the state untouched, whatever the operation \<open>f4\<close>
  is: it is not invoked. In general a breaker at or over its threshold rejects within
  the cooldown; once the time since the last failure exceeds the cooldown the counter
  is reset before the threshold is looked at, so the attempt runs the operation
  whatever the count was; and an attempt that succeeds leaves the counter at 0.
\<close>

theorem circuit_breaker_opens_and_heals:
  "failures NewCircuitBreaker = 0 \<and> threshold NewCircuitBreaker = 3 \<and>
   timeout NewCircuitBreaker = 300 * second \<and>
   (f1 s0 = (Returns (Some e1), s1) \<and> f2 t1 = (Returns (Some e2), s2) \<and>
    f3 t2 = (Returns (Some e3), s3) \<and>
    since (clock t1) (clock s1) \<le> 5 * minute \<and> since (clock t2) (clock s2) \<le> 5 * minute \<and>
    since (clock t3) (clock s3) \<le> 5 * minute \<longrightarrow>
      Do NewCircuitBreaker f1 s0
        = (Returns (Some e1), NewCircuitBreaker\<lparr>failures := 1, lastFail := clock s1\<rparr>, s1) \<and>
      Do (NewCircuitBreaker\<lparr>failures := 1, lastFail := clock s1\<rparr>) f2 t1
        = (Returns (Some e2), NewCircuitBreaker\<lparr>failures := 2, lastFail := clock s2\<rparr>, s2) \<and>
      Do (NewCircuitBreaker\<lparr>failures := 2, lastFail := clock s2\<rparr>) f3 t2
        = (Returns (Some e3), NewCircuitBreaker\<lparr>failures := 3, lastFail := clock s3\<rparr>, s3) \<and>
      Do (NewCircuitBreaker\<lparr>failures := 3, lastFail := clock s3\<rparr>) f4 t3
        = (Returns (Some ''circuit open''),
           NewCircuitBreaker\<lparr>failures := 3, lastFail := clock s3\<rparr>, t3)) \<and>
   (threshold cb \<le> failures cb \<and> since (clock s) (lastFail cb) \<le> timeout cb \<longrightarrow>
      Do cb fn s = (Returns (Some ''circuit open''), cb, s)) \<and>
   (timeout cb < since (clock s) (lastFail cb) \<and> 0 < threshold cb \<longrightarrow>
      Do cb fn s = Do (cb\<lparr>failures := 0\<rparr>) fn s \<and>
      fst (Do cb fn s) = fst (fn s) \<and> snd (snd (Do cb fn s)) = snd (fn s)) \<and>
   (fst (Do cb fn s) = Returns None \<longrightarrow> failures (fst (snd (Do cb fn s))) = 0)"
proof (intro conjI impI)
  show "failures NewCircuitBreaker = 0" and "threshold NewCircuitBreaker = 3"
    and "timeout NewCircuitBreaker = 300 * second"
    by (simp_all add: NewCircuitBreaker_def minute_def)
next
  assume h: "f1 s0 = (Returns (Some e1), s1) \<and> f2 t1 = (Returns (Some e2), s2) \<and>
    f3 t2 = (Returns (Some e3), s3) \<and>
    since (clock t1) (clock s1) \<le> 5 * minute \<and> since (clock t2) (clock s2) \<le> 5 * minute \<and>
    since (clock t3) (clock s3) \<le> 5 * minute"
  show "Do NewCircuitBreaker f1 s0
        = (Returns (Some e1), NewCircuitBreaker\<lparr>failures := 1, lastFail := clock s1\<rparr>, s1)"
    using h by (simp add: Do_first_failure)
  show "Do (NewCircuitBreaker\<lparr>failures := 1, lastFail := clock s1\<rparr>) f2 t1
        = (Returns (Some e2), NewCircuitBreaker\<lparr>failures := 2, lastFail := clock s2\<rparr>, s2)"
    using h Do_failure_counts [of f2 t1 e2 s2 "NewCircuitBreaker\<lparr>failures := 1, lastFail := clock s1\<rparr>"]
    by (simp add: NewCircuitBreaker_def)
  show "Do (NewCircuitBreaker\<lparr>failures := 2, lastFail := clock s2\<rparr>) f3 t2
        = (Returns (Some e3), NewCircuitBreaker\<lparr>failures := 3, lastFail := clock s3\<rparr>, s3)"
    using h Do_failure_counts [of f3 t2 e3 s3 "NewCircuitBreaker\<lparr>failures := 2, lastFail := clock s2\<rparr>"]
    by (simp add: NewCircuitBreaker_def)
  show "Do (NewCircuitBreaker\<lparr>failures := 3, lastFail := clock s3\<rparr>) f4 t3
        = (Returns (Some ''circuit open''),
           NewCircuitBreaker\<lparr>failures := 3, lastFail := clock s3\<rparr>, t3)"
    using h Do_open [of "NewCircuitBreaker\<lparr>failures := 3, lastFail := clock s3\<rparr>" t3 f4]
    by (simp add: NewCircuitBreaker_def)
next
  assume "threshold cb \<le> failures cb \<and> since (clock s) (lastFail cb) \<le> timeout cb"
  then show "Do cb fn s = (Returns (Some ''circuit open''), cb, s)"
    by (simp add: Do_open)
next
  assume "timeout cb < since (clock s) (lastFail cb) \<and> 0 < threshold cb"
  then have through: "Do cb fn s = Do (cb\<lparr>failures := 0\<rparr>) fn s \<and>
      fst (Do cb fn s) = fst (fn s) \<and> snd (snd (Do cb fn s)) = snd (fn s)"
    using Do_after_cooldown [of cb s fn] by blast
  from through show "Do cb fn s = Do (cb\<lparr>failures := 0\<rparr>) fn s" by blast
  from through show "fst (Do cb fn s) = fst (fn s)" by blast
  from through show "snd (snd (Do cb fn s)) = snd (fn s)" by blast
next
  assume "fst (Do cb fn s) = Returns None"
  then show "failures (fst (snd (Do cb fn s))) = 0"
    by (rule Do_success_resets)
qed

text \<open>
  The witness: the operation \<open>down\<close> fails at seconds 1, 2 and 3; an attempt at
  second 9 is rejected; an attempt at second 304, more than 300 seconds after the last
  failure, runs \<open>down\<close> again although the count was 3; and a success at second 9 on a
  breaker with two failures leaves none.
\<close>

theorem circuit_breaker_opens_and_heals_witness:
  "Do NewCircuitBreaker down (fresh boom_then_hello)
     = (Returns (Some ''down''),
        NewCircuitBreaker\<lparr>failures := 1, lastFail := 1700000001 * second\<rparr>,
        (fresh boom_then_hello)\<lparr>clock := 1700000001 * second\<rparr>) \<and>
   Do (NewCircuitBreaker\<lparr>failures := 3, lastFail := 1700000003 * second\<rparr>) down
      ((fresh boom_then_hello)\<lparr>clock := 1700000009 * second\<rparr>)
     = (Returns (Some ''circuit open''),
        NewCircuitBreaker\<lparr>failures := 3, lastFail := 1700000003 * second\<rparr>,
        (fresh boom_then_hello)\<lparr>clock := 1700000009 * second\<rparr>) \<and>
   fst (Do (NewCircuitBreaker\<lparr>failures := 3, lastFail := 1700000003 * second\<rparr>) down
      ((fresh boom_then_hello)\<lparr>clock := 1700000304 * second\<rparr>)) = Returns (Some ''down'') \<and>
   failures (fst (snd (Do (NewCircuitBreaker\<lparr>failures := 2, lastFail := 1700000003 * second\<rparr>)
      (\<lambda>s. (Returns None, s)) ((fresh boom_then_hello)\<lparr>clock := 1700000009 * second\<rparr>)))) = 0"
  using circuit_breaker_opens_and_heals [of
      down "fresh boom_then_hello" "''down''" "(fresh boom_then_hello)\<lparr>clock := 1700000001 * second\<rparr>"
      down "(fresh boom_then_hello)\<lparr>clock := 1700000001 * second\<rparr>" "''down''"
      "(fresh boom_then_hello)\<lparr>clock := 1700000002 * second\<rparr>"
      down "(fresh boom_then_hello)\<lparr>clock := 1700000002 * second\<rparr>" "''down''"
      "(fresh boom_then_hello)\<lparr>clock := 1700000003 * second\<rparr>"
      "(fresh boom_then_hello)\<lparr>clock := 1700000009 * second\<rparr>"
      down
      "NewCircuitBreaker\<lparr>failures := 3, lastFail := 1700000003 * second\<rparr>"
      "(fresh boom_then_hello)\<lparr>clock := 1700000304 * second\<rparr>" down]
    circuit_breaker_opens_and_heals [of
      down "fresh boom_then_hello" "''down''" "(fresh boom_then_hello)\<lparr>clock := 1700000001 * second\<rparr>"
      down "(fresh boom_then_hello)\<lparr>clock := 1700000001 * second\<rparr>" "''down''"
      "(fresh boom_then_hello)\<lparr>clock := 1700000002 * second\<rparr>"
      down "(fresh boom_then_hello)\<lparr>clock := 1700000002 * second\<rparr>" "''down''"
      "(fresh boom_then_hello)\<lparr>clock := 1700000003 * second\<rparr>"
      "(fresh boom_then_hello)\<lparr>clock := 1700000009 * second\<rparr>"
      down
      "NewCircuitBreaker\<lparr>failures := 2, lastFail := 1700000003 * second\<rparr>"
      "(fresh boom_then_hello)\<lparr>clock := 1700000009 * second\<rparr>" "\<lambda>s. (Returns None, s)"]
  apply (simp add: down_def fresh_def NewCircuitBreaker_def time_defs)
  apply (simp add: Do_def NewCircuitBreaker_def time_defs)
  done

section \<open>Properties of the retry loop and of main\<close>

text \<open>
  Claim C10. With a retry count of 0 or less the loop body never runs: no request is
  sent, \<^verbatim>\<open>lastErr\<close> stays nil, and the run ends as a success with an empty error and
  an empty response text, the exit status 0 and, without \<^verbatim>\<open>-j\<close>, the one line
  \<^verbatim>\<open>fmt.Println("")\<close> on stdout.
\<close>

theorem zero_retries_reported_as_success:
  "flag_r fl \<le> 0 \<longrightarrow>
     sent (final (main fl cfg prompt s0)) = sent s0 \<and>
     Error (resp (final (main fl cfg prompt s0))) = [] \<and>
     Response (resp (final (main fl cfg prompt s0))) = [] \<and>
     exit_code (main fl cfg prompt s0) = 0 \<and>
     (\<not> flag_j fl \<longrightarrow> stdout (final (main fl cfg prompt s0)) = stdout s0 @ [Println []])"
  by (simp add: main_def retry_loop.simps Let_def save_def)

theorem zero_retries_reported_as_success_witness:
  "sent (final (main (flags [] 30 0 False) anthropic_cfg ''hi'' (fresh boom_then_hello))) = [] \<and>
   Error (resp (final (main (flags [] 30 0 False) anthropic_cfg ''hi'' (fresh boom_then_hello)))) = [] \<and>
   Response (resp (final (main (flags [] 30 0 False) anthropic_cfg ''hi'' (fresh boom_then_hello)))) = [] \<and>
   exit_code (main (flags [] 30 0 False) anthropic_cfg ''hi'' (fresh boom_then_hello)) = 0 \<and>
   stdout (final (main (flags [] 30 0 False) anthropic_cfg ''hi'' (fresh boom_then_hello))) = [Println []]"
  using zero_retries_reported_as_success [of "flags [] 30 0 False" anthropic_cfg "''hi''" "fresh boom_then_hello"]
  by (simp add: flags_def fresh_def)

text \<open>
  Neither \<open>callAPI\<close> nor the loop writes a file or, but for the assignment of the
  closure, the variable \<^verbatim>\<open>resp\<close>.
\<close>

lemma callAPI_frame:
  "resp (snd (callAPI deadline cfg prompt n s)) = resp s \<and>
   files (snd (callAPI deadline cfg prompt n s)) = files s"
  by (auto simp: callAPI_def callAPI_rest_def Let_def split: option.splits reply.splits sum.splits)

lemma attempt_files:
  "files (snd (attempt deadline cfg prompt n s)) = files s"
proof -
  obtain r s' where c: "callAPI deadline cfg prompt n s = (r, s')"
    by (cases "callAPI deadline cfg prompt n s")
  then have "files s' = files s"
    using callAPI_frame [of deadline cfg prompt n s] by simp
  then show ?thesis
    using c by (auto simp: attempt_def split: go.splits sum.splits)
qed

lemma Do_files:
  assumes "files (snd (fn s)) = files s"
  shows "files (snd (snd (Do cb fn s))) = files s"
proof -
  obtain r s' where f: "fn s = (r, s')" by (cases "fn s")
  with assms have "files s' = files s" by simp
  then show ?thesis
    using f by (auto simp: Do_def Let_def split: go.splits option.splits)
qed

lemma retry_loop_files:
  assumes fn: "\<And>t. files (snd (fn t)) = files t"
  shows "files (snd (snd (retry_loop fn retries i cb lastErr s))) = files s"
  using fn
proof (induction fn retries i cb lastErr s rule: retry_loop.induct)
  case (1 fn retries i cb lastErr s)
  show ?case
  proof (cases "i < retries")
    case False
    then show ?thesis by (simp add: retry_loop.simps)
  next
    case True
    obtain r cb' s' where d: "Do cb fn s = (r, cb', s')" by (cases "Do cb fn s") auto
    have s': "files s' = files s"
      using Do_files [of fn s cb] "1.prems" d by simp
    show ?thesis
    proof (cases r)
      case Panics
      then show ?thesis using True d s' by (simp add: retry_loop.simps)
    next
      case (Returns e)
      show ?thesis
      proof (cases e)
        case None
        then show ?thesis using True d s' Returns by (simp add: retry_loop.simps)
      next
        case (Some err)
        define s'' where
          "s'' = (if i < retries - 1 then time_Sleep (wrap64 ((i + 1) * second)) s' else s')"
        have "files (snd (snd (retry_loop fn retries (i + 1) cb' (Some err) s''))) = files s''"
          unfolding s''_def
          using "1.IH" [of r "(cb', s')" e err cb' s'] True d Returns Some "1.prems" by simp
        moreover have "retry_loop fn retries i cb lastErr s
                = retry_loop fn retries (i + 1) cb' (Some err) s''"
          unfolding s''_def using True d Returns Some by (simp add: retry_loop.simps)
        moreover have "files s'' = files s'" by (simp add: s''_def time_Sleep_def)
        ultimately show ?thesis using s' by simp
      qed
    qed
  qed
qed

text \<open>
  What \<^verbatim>\<open>main\<close> does with the outcome of the loop. When the loop leaves an error
  with a message that is not empty, the run fails with that message and neither the
  session nor any file is touched. When the first attempt succeeds, the run succeeds
  with the reply's text and no error and, for a session id that is not empty, the
  session gets the prompt and the text as its two newest turns and is written to its
  file.
\<close>

lemma main_reported_failure:
  assumes "fst (retry_loop (attempt (clock s0 + wrap64 (flag_t fl * second)) cfg
              (buildPrompt (loadSession (flag_s fl) (flag_m fl) s0) prompt) (flag_n fl))
            (flag_r fl) 0 NewCircuitBreaker None
            (s0\<lparr>resp := \<lparr>Model = flag_m fl, PID = pid s0, Timestamp = clock s0 div second,
                            Prompt = prompt, Response = [], Error = [], Duration = 0\<rparr>\<rparr>))
           = Returns (Some e)"
    and "e \<noteq> []"
  shows "exit_code (main fl cfg prompt s0) = 1 \<and>
         Error (resp (final (main fl cfg prompt s0))) = e \<and>
         session (main fl cfg prompt s0) = loadSession (flag_s fl) (flag_m fl) s0 \<and>
         files (final (main fl cfg prompt s0)) = files s0"
proof -
  let ?fn = "attempt (clock s0 + wrap64 (flag_t fl * second)) cfg
              (buildPrompt (loadSession (flag_s fl) (flag_m fl) s0) prompt) (flag_n fl)"
  let ?s1 = "s0\<lparr>resp := \<lparr>Model = flag_m fl, PID = pid s0, Timestamp = clock s0 div second,
                            Prompt = prompt, Response = [], Error = [], Duration = 0\<rparr>\<rparr>"
  let ?loop = "retry_loop ?fn (flag_r fl) 0 NewCircuitBreaker None ?s1"
  obtain r cb s2 where l: "?loop = (r, cb, s2)" by (cases ?loop) auto
  have "files (snd (snd ?loop)) = files ?s1"
    by (rule retry_loop_files) (rule attempt_files)
  then have f: "files s2 = files s0" using l by simp
  have r: "r = Returns (Some e)" using assms(1) l by simp
  show ?thesis
    using l r f assms(2) by (simp add: main_def Let_def logError_def)
qed

lemma main_first_attempt_succeeds:
  assumes "0 < flag_r fl"
    and "callAPI (clock s0 + wrap64 (flag_t fl * second)) cfg
              (buildPrompt (loadSession (flag_s fl) (flag_m fl) s0) prompt) (flag_n fl)
            (s0\<lparr>resp := \<lparr>Model = flag_m fl, PID = pid s0, Timestamp = clock s0 div second,
                            Prompt = prompt, Response = [], Error = [], Duration = 0\<rparr>\<rparr>)
           = (Returns (Inr txt), s')"
  shows "exit_code (main fl cfg prompt s0) = 0 \<and>
         Response (resp (final (main fl cfg prompt s0))) = txt \<and>
         Error (resp (final (main fl cfg prompt s0))) = [] \<and>
         (flag_s fl \<noteq> [] \<longrightarrow>
            session (main fl cfg prompt s0)
              = addMessage (addMessage (loadSession (flag_s fl) (flag_m fl) s0) ''user'' prompt)
                  ''assistant'' txt \<and>
            files (final (main fl cfg prompt s0)) (session_path (flag_m fl) (flag_s fl))
              = Some (session (main fl cfg prompt s0)))"
proof -
  let ?D = "clock s0 + wrap64 (flag_t fl * second)"
  let ?cp = "buildPrompt (loadSession (flag_s fl) (flag_m fl) s0) prompt"
  let ?s1 = "s0\<lparr>resp := \<lparr>Model = flag_m fl, PID = pid s0, Timestamp = clock s0 div second,
                            Prompt = prompt, Response = [], Error = [], Duration = 0\<rparr>\<rparr>"
  have "resp (snd (callAPI ?D cfg ?cp (flag_n fl) ?s1)) = resp ?s1"
    using callAPI_frame [of ?D cfg ?cp "flag_n fl" ?s1] by blast
  then have rs: "resp s' = resp ?s1" using assms(2) by simp
  have a: "attempt ?D cfg ?cp (flag_n fl) ?s1 = (Returns None, s'\<lparr>resp := (resp s')\<lparr>Response := txt\<rparr>\<rparr>)"
    using assms(2) by (simp add: attempt_def)
  have d: "Do NewCircuitBreaker (attempt ?D cfg ?cp (flag_n fl)) ?s1
            = (Returns None, NewCircuitBreaker, s'\<lparr>resp := (resp s')\<lparr>Response := txt\<rparr>\<rparr>)"
    using a by (simp add: Do_def NewCircuitBreaker_def Let_def)
  have l: "retry_loop (attempt ?D cfg ?cp (flag_n fl)) (flag_r fl) 0 NewCircuitBreaker None ?s1
            = (Returns None, NewCircuitBreaker, s'\<lparr>resp := (resp s')\<lparr>Response := txt\<rparr>\<rparr>)"
    using assms(1) d by (simp add: retry_loop.simps)
  show ?thesis
    using l rs by (simp add: main_def Let_def save_def)
qed

text \<open>
  When an attempt succeeds the loop breaks and returns \<^verbatim>\<open>lastErr\<close> as it stands: the
  assignment \<^verbatim>\<open>lastErr = err\<close> of an earlier failed attempt is never undone.
\<close>

theorem retry_loop_success_keeps_lastErr:
  "i < retries \<and> fst (Do cb fn s) = Returns None \<longrightarrow>
     fst (retry_loop fn retries i cb lastErr s) = Returns lastErr"
  by (cases "Do cb fn s") (auto simp: retry_loop.simps)

theorem retry_loop_success_keeps_lastErr_witness:
  "fst (retry_loop (\<lambda>s. (Returns None, s)) 3 1 NewCircuitBreaker (Some ''boom'') (fresh boom_then_hello))
     = Returns (Some ''boom'')"
  using retry_loop_success_keeps_lastErr [of 1 3 NewCircuitBreaker "\<lambda>s. (Returns None, s)"
      "fresh boom_then_hello" "Some ''boom''"]
  by (simp add: Do_def NewCircuitBreaker_def)

text \<open>
  Claim C1, on the run with the default three retries whose first exchange fails with
  \<open>boom\<close> and whose second answers \<open>hello\<close> (an operation that fails once and
  then succeeds, \<open>N = 1\<close>). The loop stops at the first success: two requests are
  sent and the response text is \<open>hello\<close>. But the outcome still carries the error
  of the first attempt: nothing is printed on stdout, \<open>boom\<close> is logged, and the exit
  status is 1.
\<close>

theorem retry_success_keeps_first_error:
  "exit_code (main (flags [] 30 3 False) anthropic_cfg ''hi'' (fresh boom_then_hello)) = 1 \<and>
   Response (resp (final (main (flags [] 30 3 False) anthropic_cfg ''hi'' (fresh boom_then_hello)))) = ''hello'' \<and>
   Error (resp (final (main (flags [] 30 3 False) anthropic_cfg ''hi'' (fresh boom_then_hello)))) = ''boom'' \<and>
   length (sent (final (main (flags [] 30 3 False) anthropic_cfg ''hi'' (fresh boom_then_hello)))) = 2 \<and>
   stdout (final (main (flags [] 30 3 False) anthropic_cfg ''hi'' (fresh boom_then_hello))) = [] \<and>
   stderr (final (main (flags [] 30 3 False) anthropic_cfg ''hi'' (fresh boom_then_hello))) = [''boom'']"
  by (simp add: run_defs input_defs time_defs retry_loop.simps Let_def)

text \<open>
  Claim C2, on the same run with \<^verbatim>\<open>-j\<close>: the record encoded on stdout has both a
  response text and an error message.
\<close>

theorem outcome_with_response_and_error:
  "stdout (final (main (flags [] 30 3 True) anthropic_cfg ''hi'' (fresh boom_then_hello)))
     = [EncodeJSON \<lparr>Model = ''claude4'', PID = 4711, Timestamp = 1700000000, Prompt = ''hi'',
                     Response = ''hello'', Error = ''boom'', Duration = 2000\<rparr>]"
  by (simp add: run_defs input_defs time_defs retry_loop.simps Let_def)

text \<open>
  Claim C3, on the same run with the session id \<open>s1\<close>: the second attempt succeeds
  with the text \<open>hello\<close>, yet the session in memory is still empty and no session
  file is written.
\<close>

theorem retry_success_not_saved:
  "session (main (flags ''s1'' 30 3 False) anthropic_cfg ''hi'' (fresh boom_then_hello))
     = \<lparr>History = []\<rparr> \<and>
   files (final (main (flags ''s1'' 30 3 False) anthropic_cfg ''hi'' (fresh boom_then_hello)))
     ''.sessions/claude4-s1.json'' = None \<and>
   Response (resp (final (main (flags ''s1'' 30 3 False) anthropic_cfg ''hi'' (fresh boom_then_hello))))
     = ''hello''"
  by (simp add: run_defs input_defs time_defs retry_loop.simps Let_def)

text \<open>
  The test \<^verbatim>\<open>resp.Error == ""\<close> reads the message, not the error: when every one of
  three attempts is answered \<^verbatim>\<open>{"error":{"message":""}}\<close>, all three fail, and the
  run ends with the exit status 0, an empty line on stdout and a session file that holds
  the prompt and an empty assistant turn.
\<close>

theorem empty_error_message_taken_for_success:
  "exit_code (main (flags ''s1'' 30 3 False) anthropic_cfg ''hi'' (fresh empty_error)) = 0 \<and>
   length (sent (final (main (flags ''s1'' 30 3 False) anthropic_cfg ''hi'' (fresh empty_error)))) = 3 \<and>
   stdout (final (main (flags ''s1'' 30 3 False) anthropic_cfg ''hi'' (fresh empty_error))) = [Println []] \<and>
   files (final (main (flags ''s1'' 30 3 False) anthropic_cfg ''hi'' (fresh empty_error)))
     ''.sessions/claude4-s1.json''
     = Some \<lparr>History = [\<lparr>Role = ''user'', Content = ''hi''\<rparr>, \<lparr>Role = ''assistant'', Content = []\<rparr>]\<rparr>"
  by (simp add: run_defs input_defs empty_error_def time_defs retry_loop.simps Let_def)

section \<open>The deadline\<close>
















text \<open>
  A read of the body that the deadline cuts off does not fail the attempt: against an
  endpoint that has sent the whole of \<^verbatim>\<open>{"content":[{"text":"hello"}]}\<close> but keeps the
  stream open, the run with a timeout of one second ends at the deadline with the text
  \<open>hello\<close>, no error, the exit status 0 and the session saved.
\<close>

theorem body_cut_off_at_deadline_succeeds:
  "exit_code (main (flags ''s1'' 1 3 False) anthropic_cfg ''hi'' (fresh hello_kept_open)) = 0 \<and>
   clock (final (main (flags ''s1'' 1 3 False) anthropic_cfg ''hi'' (fresh hello_kept_open)))
     = 1700000001 * second \<and>
   stdout (final (main (flags ''s1'' 1 3 False) anthropic_cfg ''hi'' (fresh hello_kept_open)))
     = [Println ''hello''] \<and>
   files (final (main (flags ''s1'' 1 3 False) anthropic_cfg ''hi'' (fresh hello_kept_open)))
     ''.sessions/claude4-s1.json''
     = Some \<lparr>History = [\<lparr>Role = ''user'', Content = ''hi''\<rparr>,
                          \<lparr>Role = ''assistant'', Content = ''hello''\<rparr>]\<rparr>"
  by (simp add: run_defs input_defs hello_kept_open_def time_defs retry_loop.simps Let_def)



end
